theory Spec2Isabelle
  imports Complex_Main "HOL-Library.List_Lexorder"
begin

section \<open>Values of the host language\<close>

text \<open>
  A JavaScript number: a finite value, the two infinities, or NaN. Every finite double is
  a rational, so finite values are modelled as rationals; comparison, \<^verbatim>\<open>Math.floor\<close>,
  \<^verbatim>\<open>Math.ceil\<close>, \<^verbatim>\<open>Math.min\<close> and \<^verbatim>\<open>Math.max\<close> are exact on them, and the result
  of a subtraction, a multiplication or a division is rounded to the nearest double
  (\<open>to_double\<close>). The sign of a zero is not kept.
\<close>

datatype js_number = NaN | PInf | NInf | Fin rat

text \<open>
  Rounding to the nearest double, ties to the even significand: a significand of 53 bits,
  exponents from -1022 to 1023, smaller values on the grid of the subnormal numbers, and
  infinity from \<open>2 ^ 1024\<close> on. \<open>floor_log2 x\<close> is the exponent \<open>e\<close> with
  \<open>2 ^ e \<le> x < 2 ^ (e + 1)\<close> of a positive \<open>x\<close>.
\<close>

function bit_length :: "int \<Rightarrow> int" where
  "bit_length k = (if k \<le> 0 then 0 else 1 + bit_length (k div 2))"
  by pat_completeness auto
termination
  by (relation "measure nat") auto

declare bit_length.simps [simp del]

definition floor_log2 :: "rat \<Rightarrow> int" where
  "floor_log2 x =
     (if 1 \<le> x then bit_length \<lfloor>x\<rfloor> - 1 else - bit_length (\<lceil>1 / x\<rceil> - 1))"

definition pow2 :: "int \<Rightarrow> rat" where
  "pow2 q = (if 0 \<le> q then 2 ^ nat q else 1 / 2 ^ nat (- q))"

definition round_half_even :: "rat \<Rightarrow> int" where
  "round_half_even x =
     (let f = \<lfloor>x\<rfloor>; d = x - of_int f
      in if d < 1 / 2 then f else if 1 / 2 < d then f + 1 else if even f then f else f + 1)"

definition to_double :: "rat \<Rightarrow> js_number" where
  "to_double x =
     (if x = 0 then Fin 0
      else
        (let a = \<bar>x\<bar>;
             q = max (floor_log2 a) (- 1022) - 52;
             m = of_int (round_half_even (a / pow2 q)) * pow2 q
         in if pow2 1024 \<le> m then (if 0 < x then PInf else NInf)
            else Fin (if 0 < x then m else - m)))"

text \<open>
  \<^verbatim>\<open>Number.isNaN\<close>, \<^verbatim>\<open>x < y\<close>, \<^verbatim>\<open>Math.floor\<close>, \<^verbatim>\<open>Math.ceil\<close>, \<^verbatim>\<open>Math.min\<close>,
  \<^verbatim>\<open>Math.max\<close>, and the operators \<^verbatim>\<open>-\<close>, \<^verbatim>\<open>*\<close> and \<^verbatim>\<open>/\<close>.
\<close>

fun isNaN :: "js_number \<Rightarrow> bool" where
  "isNaN NaN = True"
| "isNaN _ = False"

fun js_less :: "js_number \<Rightarrow> js_number \<Rightarrow> bool" where
  "js_less NaN _ = False"
| "js_less _ NaN = False"
| "js_less PInf _ = False"
| "js_less NInf NInf = False"
| "js_less NInf _ = True"
| "js_less (Fin a) PInf = True"
| "js_less (Fin a) NInf = False"
| "js_less (Fin a) (Fin b) = (a < b)"

fun Math_floor :: "js_number \<Rightarrow> js_number" where
  "Math_floor (Fin a) = Fin (of_int \<lfloor>a\<rfloor>)"
| "Math_floor x = x"

fun Math_ceil :: "js_number \<Rightarrow> js_number" where
  "Math_ceil (Fin a) = Fin (of_int \<lceil>a\<rceil>)"
| "Math_ceil x = x"

fun Math_min :: "js_number \<Rightarrow> js_number \<Rightarrow> js_number" where
  "Math_min NaN _ = NaN"
| "Math_min _ NaN = NaN"
| "Math_min x y = (if js_less x y then x else y)"

fun Math_max :: "js_number \<Rightarrow> js_number \<Rightarrow> js_number" where
  "Math_max NaN _ = NaN"
| "Math_max _ NaN = NaN"
| "Math_max x y = (if js_less x y then y else x)"

fun js_sign :: "js_number \<Rightarrow> int" where
  "js_sign NaN = 0"
| "js_sign PInf = 1"
| "js_sign NInf = - 1"
| "js_sign (Fin a) = (if 0 < a then 1 else if a < 0 then - 1 else 0)"

fun js_sub :: "js_number \<Rightarrow> js_number \<Rightarrow> js_number" where
  "js_sub NaN _ = NaN"
| "js_sub _ NaN = NaN"
| "js_sub (Fin a) (Fin b) = to_double (a - b)"
| "js_sub (Fin a) PInf = NInf"
| "js_sub (Fin a) NInf = PInf"
| "js_sub PInf PInf = NaN"
| "js_sub PInf _ = PInf"
| "js_sub NInf NInf = NaN"
| "js_sub NInf _ = NInf"

fun js_mul :: "js_number \<Rightarrow> js_number \<Rightarrow> js_number" where
  "js_mul NaN _ = NaN"
| "js_mul _ NaN = NaN"
| "js_mul (Fin a) (Fin b) = to_double (a * b)"
| "js_mul x y =
     (let s = js_sign x * js_sign y
      in if s = 0 then NaN else if 0 < s then PInf else NInf)"

fun js_div :: "js_number \<Rightarrow> js_number \<Rightarrow> js_number" where
  "js_div NaN _ = NaN"
| "js_div _ NaN = NaN"
| "js_div (Fin a) (Fin b) =
     (if b = 0 then (if a = 0 then NaN else if 0 < a then PInf else NInf)
      else to_double (a / b))"
| "js_div (Fin a) _ = Fin 0"
| "js_div x (Fin b) = (if (js_sign x = 1) = (0 \<le> b) then PInf else NInf)"
| "js_div _ _ = NaN"

text \<open>A number that is a (finite) integer, as \<^verbatim>\<open>Number.isInteger\<close> tests it.\<close>

fun isInteger :: "js_number \<Rightarrow> bool" where
  "isInteger (Fin a) = (of_int \<lfloor>a\<rfloor> = a)"
| "isInteger _ = False"

text \<open>
  A value of a JSON request body. Arrays and objects are one constructor: the handlers
  only test them for truthiness and call string methods on them, which they do not have.
\<close>

datatype jsval = JUndefined | JNull | JBool bool | JNum js_number | JStr string | JObject

fun truthy :: "jsval \<Rightarrow> bool" where
  "truthy JUndefined = False"
| "truthy JNull = False"
| "truthy (JBool b) = b"
| "truthy (JNum n) = (n \<noteq> NaN \<and> n \<noteq> Fin 0)"
| "truthy (JStr s) = (s \<noteq> [])"
| "truthy JObject = True"

text \<open>
  What a handler can throw. A failure of \<^verbatim>\<open>jwt.verify\<close> is described by the answers
  of the two \<^verbatim>\<open>instanceof\<close> tests the middleware makes on it.
\<close>

datatype js_error =
    TypeError
  | BSONError
  | DbError
  | ValidationError
  | VerifyError (is_TokenExpiredError: bool) (is_JsonWebTokenError: bool)

fun instanceof_TokenExpiredError :: "js_error \<Rightarrow> bool" where
  "instanceof_TokenExpiredError (VerifyError e j) = e"
| "instanceof_TokenExpiredError _ = False"

fun instanceof_JsonWebTokenError :: "js_error \<Rightarrow> bool" where
  "instanceof_JsonWebTokenError (VerifyError e j) = j"
| "instanceof_JsonWebTokenError _ = False"

subsection \<open>Strings\<close>

text \<open>
  A string is a sequence of code units below 256, a \<open>char\<close> being the code unit of that
  number. In this range \<^verbatim>\<open>trim\<close> removes, at both ends, the white space and the line
  terminators of the language: tab, line feed, vertical tab, form feed, carriage return,
  space and the no-break space \<open>0xA0\<close>; \<^verbatim>\<open>toLowerCase\<close> maps the letters A to Z and the
  upper-case letters \<open>0xC0\<close> to \<open>0xDE\<close> (all of that range but the multiplication sign
  \<open>0xD7\<close>) to the code unit 32 above; \<^verbatim>\<open>split\<close> cuts at every occurrence of a
  one-character separator and always returns at least one piece.
\<close>

definition is_space :: "char \<Rightarrow> bool" where
  "is_space c =
     (c \<in> set [CHR 0x09, CHR 0x0A, CHR 0x0B, CHR 0x0C, CHR 0x0D, CHR '' '', CHR 0xA0])"

definition trim :: "string \<Rightarrow> string" where
  "trim s = rev (dropWhile is_space (rev (dropWhile is_space s)))"

definition upper_letters :: string where
  "upper_letters =
     ''ABCDEFGHIJKLMNOPQRSTUVWXYZ'' @
     [CHR 0xC0, CHR 0xC1, CHR 0xC2, CHR 0xC3, CHR 0xC4, CHR 0xC5, CHR 0xC6, CHR 0xC7,
      CHR 0xC8, CHR 0xC9, CHR 0xCA, CHR 0xCB, CHR 0xCC, CHR 0xCD, CHR 0xCE, CHR 0xCF,
      CHR 0xD0, CHR 0xD1, CHR 0xD2, CHR 0xD3, CHR 0xD4, CHR 0xD5, CHR 0xD6,
      CHR 0xD8, CHR 0xD9, CHR 0xDA, CHR 0xDB, CHR 0xDC, CHR 0xDD, CHR 0xDE]"

definition lower_letters :: string where
  "lower_letters =
     ''abcdefghijklmnopqrstuvwxyz'' @
     [CHR 0xE0, CHR 0xE1, CHR 0xE2, CHR 0xE3, CHR 0xE4, CHR 0xE5, CHR 0xE6, CHR 0xE7,
      CHR 0xE8, CHR 0xE9, CHR 0xEA, CHR 0xEB, CHR 0xEC, CHR 0xED, CHR 0xEE, CHR 0xEF,
      CHR 0xF0, CHR 0xF1, CHR 0xF2, CHR 0xF3, CHR 0xF4, CHR 0xF5, CHR 0xF6,
      CHR 0xF8, CHR 0xF9, CHR 0xFA, CHR 0xFB, CHR 0xFC, CHR 0xFD, CHR 0xFE]"

definition lower_char :: "char \<Rightarrow> char" where
  "lower_char c =
     (case map_of (zip upper_letters lower_letters) c of
        Some l \<Rightarrow> l
      | None \<Rightarrow> c)"

definition toLowerCase :: "string \<Rightarrow> string" where
  "toLowerCase s = map lower_char s"

fun split :: "char \<Rightarrow> string \<Rightarrow> string list" where
  "split sep [] = [[]]"
| "split sep (c # cs) =
     (if c = sep then [] # split sep cs
      else (case split sep cs of
              [] \<Rightarrow> [[c]]
            | w # ws \<Rightarrow> (c # w) # ws))"

text \<open>\<^verbatim>\<open>x.trim()\<close> on a body value: only a string has the method.\<close>

fun js_trim :: "jsval \<Rightarrow> js_error + string" where
  "js_trim (JStr s) = Inr (trim s)"
| "js_trim _ = Inl TypeError"

section \<open>Pagination and sort parameters\<close>

text \<open>
  \<^verbatim>\<open>parsePaginationParams\<close>. The arguments are \<^verbatim>\<open>req.query.page\<close> and
  \<^verbatim>\<open>req.query.limit\<close> after the language's \<^verbatim>\<open>Number\<close> conversion, \<open>None\<close> when the
  parameter is absent (then \<^verbatim>\<open>??\<close> supplies 1 and 10).
\<close>

definition parsePaginationParams :: "js_number option \<Rightarrow> js_number option \<Rightarrow> js_number \<times> js_number" where
  "parsePaginationParams qpage qlimit =
     (let rawPage = (case qpage of None \<Rightarrow> Fin 1 | Some n \<Rightarrow> n);
          rawLimit = (case qlimit of None \<Rightarrow> Fin 10 | Some n \<Rightarrow> n);
          page = (if isNaN rawPage \<or> js_less rawPage (Fin 1) then Fin 1 else Math_floor rawPage);
          limit = (if isNaN rawLimit \<or> js_less rawLimit (Fin 1) then Fin 10
                   else Math_min (Math_floor rawLimit) (Fin 100))
      in (page, limit))"

text \<open>
  The sort object of \<^verbatim>\<open>getAllTasks\<close> and \<^verbatim>\<open>getTasks\<close>: the parameter (trimmed when
  it is a string, \<^verbatim>\<open>createdAt:desc\<close> otherwise) is split at the colons; a missing
  first or second piece takes its default; the direction is 1 when the second piece is
  \<^verbatim>\<open>asc\<close> after lower-casing and -1 otherwise.
\<close>

definition sortParam_of :: "string option \<Rightarrow> string" where
  "sortParam_of qsort = (case qsort of Some s \<Rightarrow> trim s | None \<Rightarrow> ''createdAt:desc'')"

definition parse_sort :: "string \<Rightarrow> string \<times> int" where
  "parse_sort sortParam =
     (let parts = split CHR '':'' sortParam;
          sortField = (case parts of [] \<Rightarrow> ''createdAt'' | f # _ \<Rightarrow> f);
          sortDir = (case parts of _ # d # _ \<Rightarrow> d | _ \<Rightarrow> ''desc'')
      in (sortField, if toLowerCase sortDir = ''asc'' then 1 else -1))"

section \<open>Documents, requests and responses\<close>

text \<open>
  An ObjectId is kept as its hexadecimal string. A task document has the fields the
  handlers read and write; a user document has the fields the list operations project
  into a task (\<^verbatim>\<open>populate("createdBy", "username email")\<close>).
\<close>

type_synonym objectid = string

record task =
  t_id :: objectid
  title :: string
  description :: string
  status :: string
  createdBy :: objectid
  createdAt :: nat

record user_doc =
  u_id :: objectid
  username :: string
  email :: string

record store =
  tasks :: "task list"
  users :: "user_doc list"

text \<open>\<^verbatim>\<open>req.user\<close>, declared as \<^verbatim>\<open>{ id: string; role: string }\<close>.\<close>

record user_ctx =
  ctx_id :: string
  ctx_role :: string

record req_body =
  b_title :: jsval
  b_description :: jsval
  b_status :: jsval
  b_token :: jsval

text \<open>
  The parts of a request the middleware and the handlers read. \<open>q_page\<close> and
  \<open>q_limit\<close> are the query parameters after \<^verbatim>\<open>Number\<close>; \<open>q_search\<close> and \<open>q_sort\<close>
  are \<open>None\<close> when the parameter is not a string.
\<close>

record request =
  authorization :: "string option"
  cookie_token :: jsval
  body :: "req_body option"
  user :: "user_ctx option"
  taskId :: "string option"
  q_page :: "js_number option"
  q_limit :: "js_number option"
  q_search :: "string option"
  q_sort :: "string option"

datatype payload =
    NoData
  | TaskData task
  | PageData (p_items: "(task \<times> user_doc option) list") (p_page: js_number) (p_limit: js_number)
      (p_total: js_number) (p_totalPages: js_number)

record response =
  res_status :: nat
  success :: bool
  message :: string
  data :: payload

definition failure :: "nat \<Rightarrow> string \<Rightarrow> response" where
  "failure c m = \<lparr>res_status = c, success = False, message = m, data = NoData\<rparr>"

definition ok_response :: "nat \<Rightarrow> payload \<Rightarrow> string \<Rightarrow> response" where
  "ok_response c d m = \<lparr>res_status = c, success = True, message = m, data = d\<rparr>"

text \<open>
  What the program takes from its libraries and from files that are not among the
  sources: the signing secret of the environment and \<^verbatim>\<open>jwt.verify\<close>; the ObjectId
  test and constructor; the regular-expression engine of the database (\<open>None\<close>: the
  pattern is rejected); the schema of the Task model, which decides how a status value
  is cast and whether a document is accepted on \<^verbatim>\<open>create\<close> and \<^verbatim>\<open>save\<close>; the
  generator of fresh ids and the clock.
\<close>

record env =
  JWT_SECRET :: "string option"
  jwt_verify :: "jsval \<Rightarrow> string \<Rightarrow> js_error + user_ctx"
  ObjectId_isValid :: "string \<Rightarrow> bool"
  ObjectId_new :: "string option \<Rightarrow> js_error + objectid"
  regex_compile :: "string \<Rightarrow> (string \<Rightarrow> bool) option"
  schema_cast_status :: "jsval \<Rightarrow> string option"
  schema_accepts :: "task \<Rightarrow> bool"
  fresh_id :: "task list \<Rightarrow> objectid"
  now :: nat

section \<open>The middleware\<close>

text \<open>
  \<^verbatim>\<open>authMiddleware\<close>. The token is the second piece of the Authorization header split
  at spaces, else the cookie, else the body field. \<open>Inl\<close> is the response sent,
  \<open>Inr\<close> the request handed to \<^verbatim>\<open>next()\<close>.
\<close>

definition extract_token :: "request \<Rightarrow> jsval" where
  "extract_token req =
     (let h = (case authorization req of
                 None \<Rightarrow> JUndefined
               | Some a \<Rightarrow> (case split CHR '' '' a of _ # t # _ \<Rightarrow> JStr t | _ \<Rightarrow> JUndefined));
          c = cookie_token req;
          b = (case body req of None \<Rightarrow> JUndefined | Some bd \<Rightarrow> b_token bd)
      in if truthy h then h else if truthy c then c else b)"

definition secret_of :: "env \<Rightarrow> string" where
  "secret_of e =
     (case JWT_SECRET e of
        None \<Rightarrow> ''task-manager-secret''
      | Some s \<Rightarrow> if s = [] then ''task-manager-secret'' else s)"

definition authMiddleware :: "env \<Rightarrow> request \<Rightarrow> response + request" where
  "authMiddleware e req =
     (let token = extract_token req in
      if \<not> truthy token
      then Inl (failure 401 ''No token provided, authorization denied. Please log in.'')
      else (case jwt_verify e token (secret_of e) of
              Inr decoded \<Rightarrow> Inr (req\<lparr>user := Some decoded\<rparr>)
            | Inl error \<Rightarrow>
                if instanceof_TokenExpiredError error
                then Inl (failure 401 ''Token has expired. Please log in again.'')
                else if instanceof_JsonWebTokenError error
                then Inl (failure 403 ''Invalid token. Authorization denied.'')
                else Inl (failure 500 ''Authentication error. Please try again.'')))"

text \<open>\<^verbatim>\<open>isAdminMiddleware\<close>: \<^verbatim>\<open>req.user?.role !== "admin"\<close>.\<close>

definition isAdminMiddleware :: "request \<Rightarrow> response + request" where
  "isAdminMiddleware req =
     (if map_option ctx_role (user req) \<noteq> Some ''admin''
      then Inl (failure 403 ''Access denied. Admins only.'')
      else Inr req)"

section \<open>The Task collection\<close>

text \<open>
  The query filter of the list operations: an optional owner and an optional
  case-insensitive regular expression on the title.
\<close>

record task_filter =
  f_createdBy :: "objectid option"
  f_title :: "string option"

definition compile_filter :: "env \<Rightarrow> task_filter \<Rightarrow> js_error + (task \<Rightarrow> bool)" where
  "compile_filter e flt =
     (case f_title flt of
        None \<Rightarrow> Inr (\<lambda>t. case f_createdBy flt of None \<Rightarrow> True | Some owner \<Rightarrow> createdBy t = owner)
      | Some pat \<Rightarrow>
          (case regex_compile e pat of
             None \<Rightarrow> Inl DbError
           | Some m \<Rightarrow>
               Inr (\<lambda>t. (case f_createdBy flt of None \<Rightarrow> True | Some owner \<Rightarrow> createdBy t = owner)
                          \<and> m (title t))))"

text \<open>\<^verbatim>\<open>Task.countDocuments\<close>: the number of matching documents, as a number.\<close>

definition Task_countDocuments :: "env \<Rightarrow> store \<Rightarrow> task_filter \<Rightarrow> js_error + js_number" where
  "Task_countDocuments e st flt =
     (case compile_filter e flt of
        Inl err \<Rightarrow> Inl err
      | Inr p \<Rightarrow> Inr (to_double (of_nat (length (filter p (tasks st))))))"

text \<open>
  Sorting by one field and a direction. The key of a document is the value of the named
  field (strings compare code unit by code unit, a field no document has gives every
  document the same key); the sort is stable, and reversed for direction -1.
\<close>

definition sort_value :: "string \<Rightarrow> task \<Rightarrow> nat list" where
  "sort_value field t =
     (if field = ''title'' then map of_char (title t)
      else if field = ''description'' then map of_char (description t)
      else if field = ''status'' then map of_char (status t)
      else if field = ''createdBy'' then map of_char (createdBy t)
      else if field = ''_id'' then map of_char (t_id t)
      else if field = ''createdAt'' then [createdAt t]
      else [])"

definition sort_tasks :: "string \<times> int \<Rightarrow> task list \<Rightarrow> task list" where
  "sort_tasks sortObj xs =
     (let ys = sort_key (sort_value (fst sortObj)) xs
      in if snd sortObj = 1 then ys else rev ys)"

text \<open>
  \<^verbatim>\<open>(page - 1) * limit\<close>, and \<^verbatim>\<open>skip\<close> and \<^verbatim>\<open>limit\<close> as the database applies them:
  it takes a window only for a finite skip that is a non-negative integer and a finite
  limit that is a positive integer.
\<close>

definition skip_of :: "js_number \<Rightarrow> js_number \<Rightarrow> js_number" where
  "skip_of pg lmt = js_mul (js_sub pg (Fin 1)) lmt"

definition window :: "js_number \<Rightarrow> js_number \<Rightarrow> 'a list \<Rightarrow> js_error + 'a list" where
  "window skip lmt xs =
     (case (skip, lmt) of
        (Fin s, Fin l) \<Rightarrow>
          if isInteger skip \<and> 0 \<le> s \<and> isInteger lmt \<and> 1 \<le> l
          then Inr (take (nat \<lfloor>l\<rfloor>) (drop (nat \<lfloor>s\<rfloor>) xs))
          else Inl DbError
      | _ \<Rightarrow> Inl DbError)"

definition populate :: "store \<Rightarrow> task \<Rightarrow> task \<times> user_doc option" where
  "populate st t = (t, find (\<lambda>u. u_id u = createdBy t) (users st))"

definition Task_find ::
  "env \<Rightarrow> store \<Rightarrow> task_filter \<Rightarrow> string \<times> int \<Rightarrow> js_number \<Rightarrow> js_number
     \<Rightarrow> js_error + (task \<times> user_doc option) list" where
  "Task_find e st flt sortObj skip lmt =
     (case compile_filter e flt of
        Inl err \<Rightarrow> Inl err
      | Inr p \<Rightarrow>
          (case window skip lmt (sort_tasks sortObj (filter p (tasks st))) of
             Inl err \<Rightarrow> Inl err
           | Inr docs \<Rightarrow> Inr (map (populate st) docs)))"

text \<open>\<^verbatim>\<open>Math.max(1, Math.ceil(total / limit))\<close>.\<close>

definition totalPages_of :: "js_number \<Rightarrow> js_number \<Rightarrow> js_number" where
  "totalPages_of cnt lmt = Math_max (Fin 1) (Math_ceil (js_div cnt lmt))"

text \<open>
  \<^verbatim>\<open>Task.create\<close>: the schema casts the status and accepts or rejects the document;
  an accepted document gets a fresh id and the creation time and is appended. It returns
  the document or throws, so the \<^verbatim>\<open>if (!newTask)\<close> branch of \<^verbatim>\<open>createTask\<close> is
  never taken and has no counterpart below.
\<close>

definition Task_create ::
  "env \<Rightarrow> string \<Rightarrow> string \<Rightarrow> jsval \<Rightarrow> objectid \<Rightarrow> store \<Rightarrow> js_error + (task \<times> store)" where
  "Task_create e ttl descr statusv owner st =
     (case schema_cast_status e statusv of
        None \<Rightarrow> Inl ValidationError
      | Some s \<Rightarrow>
          (let t = \<lparr>t_id = fresh_id e (tasks st), title = ttl, description = descr, status = s,
                    createdBy = owner, createdAt = now e\<rparr>
           in if schema_accepts e t then Inr (t, st\<lparr>tasks := tasks st @ [t]\<rparr>)
              else Inl ValidationError))"

text \<open>\<^verbatim>\<open>Task.findOne({_id, createdBy})\<close>: the first document with that id and owner.\<close>

definition Task_findOne :: "store \<Rightarrow> objectid \<Rightarrow> objectid \<Rightarrow> task option" where
  "Task_findOne st oid owner = find (\<lambda>t. t_id t = oid \<and> createdBy t = owner) (tasks st)"

text \<open>\<^verbatim>\<open>task.save()\<close>: an accepted document replaces the stored one with its id.\<close>

fun update_doc :: "task \<Rightarrow> task list \<Rightarrow> task list" where
  "update_doc t [] = []"
| "update_doc t (x # xs) = (if t_id x = t_id t then t # xs else x # update_doc t xs)"

definition Task_save :: "env \<Rightarrow> task \<Rightarrow> store \<Rightarrow> js_error + (task \<times> store)" where
  "Task_save e t st =
     (if schema_accepts e t then Inr (t, st\<lparr>tasks := update_doc t (tasks st)\<rparr>)
      else Inl ValidationError)"

text \<open>
  \<^verbatim>\<open>Task.findOneAndDelete({_id})\<close>: the first document with that id is removed and
  returned.
\<close>

fun delete_doc :: "objectid \<Rightarrow> task list \<Rightarrow> task list" where
  "delete_doc oid [] = []"
| "delete_doc oid (x # xs) = (if t_id x = oid then xs else x # delete_doc oid xs)"

definition Task_findOneAndDelete :: "store \<Rightarrow> objectid \<Rightarrow> task option \<times> store" where
  "Task_findOneAndDelete st oid =
     (case find (\<lambda>t. t_id t = oid) (tasks st) of
        None \<Rightarrow> (None, st)
      | Some t \<Rightarrow> (Some t, st\<lparr>tasks := delete_doc oid (tasks st)\<rparr>))"

section \<open>The task handlers\<close>

text \<open>
  Each handler is the body of its \<^verbatim>\<open>try\<close> block, where \<open>Inl\<close> is a thrown error,
  followed by the \<^verbatim>\<open>catch\<close> that answers 500. A handler that writes returns the new
  store beside the response.
\<close>

text \<open>\<^verbatim>\<open>description?.trim() || ""\<close>.\<close>

fun description_or_empty :: "jsval \<Rightarrow> js_error + string" where
  "description_or_empty JUndefined = Inr []"
| "description_or_empty JNull = Inr []"
| "description_or_empty v = js_trim v"

definition createTask_try :: "env \<Rightarrow> request \<Rightarrow> store \<Rightarrow> js_error + (response \<times> store)" where
  "createTask_try e req st =
     (let userId = map_option ctx_id (user req) in
      case body req of
        None \<Rightarrow> Inl TypeError
      | Some b \<Rightarrow>
          if \<not> truthy (b_title b)
          then Inr (failure 400 ''Title is required to create a task.'', st)
          else (case js_trim (b_title b) of
                  Inl err \<Rightarrow> Inl err
                | Inr ttl \<Rightarrow>
                    if ttl = []
                    then Inr (failure 400 ''Title is required to create a task.'', st)
                    else (case description_or_empty (b_description b) of
                            Inl err \<Rightarrow> Inl err
                          | Inr descr \<Rightarrow>
                              (case ObjectId_new e userId of
                                 Inl err \<Rightarrow> Inl err
                               | Inr owner \<Rightarrow>
                                   (case Task_create e ttl descr
                                           (if truthy (b_status b) then b_status b
                                            else JStr ''pending'')
                                           owner st of
                                      Inl err \<Rightarrow> Inl err
                                    | Inr (newTask, st') \<Rightarrow>
                                        Inr (ok_response 201 (TaskData newTask)
                                               ''Task created successfully.'', st'))))))"

definition createTask :: "env \<Rightarrow> request \<Rightarrow> store \<Rightarrow> response \<times> store" where
  "createTask e req st =
     (case createTask_try e req st of
        Inr r \<Rightarrow> r
      | Inl err \<Rightarrow> (failure 500 ''Internal server error while creating task.'', st))"

definition getAllTasks_try :: "env \<Rightarrow> request \<Rightarrow> store \<Rightarrow> js_error + response" where
  "getAllTasks_try e req st =
     (let (pg, lmt) = parsePaginationParams (q_page req) (q_limit req);
          search = (case q_search req of Some s \<Rightarrow> trim s | None \<Rightarrow> []);
          sortParam = sortParam_of (q_sort req);
          flt = \<lparr>f_createdBy = None, f_title = (if search \<noteq> [] then Some search else None)\<rparr>;
          sortObj = parse_sort sortParam;
          skip = skip_of pg lmt
      in case Task_countDocuments e st flt of
           Inl err \<Rightarrow> Inl err
         | Inr cnt \<Rightarrow>
             (case Task_find e st flt sortObj skip lmt of
                Inl err \<Rightarrow> Inl err
              | Inr docs \<Rightarrow>
                  Inr (ok_response 200 (PageData docs pg lmt cnt (totalPages_of cnt lmt))
                         ''Tasks fetched successfully.'')))"

definition getAllTasks :: "env \<Rightarrow> request \<Rightarrow> store \<Rightarrow> response" where
  "getAllTasks e req st =
     (case getAllTasks_try e req st of
        Inr r \<Rightarrow> r
      | Inl err \<Rightarrow> failure 500 ''Internal server error while fetching tasks.'')"

definition getTasks_try :: "env \<Rightarrow> request \<Rightarrow> store \<Rightarrow> js_error + response" where
  "getTasks_try e req st =
     (case map_option ctx_id (user req) of
        None \<Rightarrow> Inr (failure 401 ''User not authenticated.'')
      | Some userId \<Rightarrow>
          if userId = [] then Inr (failure 401 ''User not authenticated.'')
          else if \<not> ObjectId_isValid e userId then Inr (failure 400 ''Invalid user id.'')
          else
            (let (pg, lmt) = parsePaginationParams (q_page req) (q_limit req);
                 search = (case q_search req of Some s \<Rightarrow> trim s | None \<Rightarrow> []);
                 sortParam = sortParam_of (q_sort req)
             in case ObjectId_new e (Some userId) of
                  Inl err \<Rightarrow> Inl err
                | Inr owner \<Rightarrow>
                    (let flt = \<lparr>f_createdBy = Some owner,
                                f_title = (if search \<noteq> [] then Some search else None)\<rparr>;
                         sortObj = parse_sort sortParam;
                         skip = skip_of pg lmt
                     in case Task_countDocuments e st flt of
                          Inl err \<Rightarrow> Inl err
                        | Inr cnt \<Rightarrow>
                            (case Task_find e st flt sortObj skip lmt of
                               Inl err \<Rightarrow> Inl err
                             | Inr docs \<Rightarrow>
                                 Inr (ok_response 200
                                        (PageData docs pg lmt cnt (totalPages_of cnt lmt))
                                        ''Tasks fetched successfully.'')))))"

definition getTasks :: "env \<Rightarrow> request \<Rightarrow> store \<Rightarrow> response" where
  "getTasks e req st =
     (case getTasks_try e req st of
        Inr r \<Rightarrow> r
      | Inl err \<Rightarrow> failure 500 ''Internal server error while fetching tasks.'')"

text \<open>
  \<^verbatim>\<open>updateTask\<close>. \<^verbatim>\<open>if (title) task.title = title.trim()\<close> and its two siblings are
  \<open>assign_trimmed\<close> and \<open>assign_status\<close>: a falsy value keeps the old field.
\<close>

definition assign_trimmed :: "jsval \<Rightarrow> string \<Rightarrow> js_error + string" where
  "assign_trimmed v old = (if truthy v then js_trim v else Inr old)"

fun js_toLowerCase :: "jsval \<Rightarrow> js_error + string" where
  "js_toLowerCase (JStr s) = Inr (toLowerCase s)"
| "js_toLowerCase _ = Inl TypeError"

definition assign_status :: "jsval \<Rightarrow> string \<Rightarrow> js_error + string" where
  "assign_status v old = (if truthy v then js_toLowerCase v else Inr old)"

definition status_allowed :: "jsval \<Rightarrow> bool" where
  "status_allowed v = (v \<in> set [JStr ''pending'', JStr ''completed''])"

definition updateTask_try :: "env \<Rightarrow> request \<Rightarrow> store \<Rightarrow> js_error + (response \<times> store)" where
  "updateTask_try e req st =
     (let userId = map_option ctx_id (user req) in
      case body req of
        None \<Rightarrow> Inl TypeError
      | Some b \<Rightarrow>
          (case taskId req of
             None \<Rightarrow> Inr (failure 400 ''Task ID is required.'', st)
           | Some tid \<Rightarrow>
               if tid = [] then Inr (failure 400 ''Task ID is required.'', st)
               else if \<not> ObjectId_isValid e tid
               then Inr (failure 400 ''Invalid task ID format.'', st)
               else if \<not> truthy (b_title b) \<and> \<not> truthy (b_description b) \<and> \<not> truthy (b_status b)
               then Inr (failure 400
                      ''Please provide at least one field to update (title, description, or status).'', st)
               else if truthy (b_status b) \<and> \<not> status_allowed (b_status b)
               then Inr (failure 400 ''Status must be either 'pending' or 'completed'.'', st)
               else
                 (case ObjectId_new e (Some tid) of
                    Inl err \<Rightarrow> Inl err
                  | Inr oid \<Rightarrow>
                      (case ObjectId_new e userId of
                         Inl err \<Rightarrow> Inl err
                       | Inr owner \<Rightarrow>
                           (case Task_findOne st oid owner of
                              None \<Rightarrow>
                                Inr (failure 404
                                  ''Task not found or you don't have permission to update it.'', st)
                            | Some t \<Rightarrow>
                                (case assign_trimmed (b_title b) (title t) of
                                   Inl err \<Rightarrow> Inl err
                                 | Inr ttl \<Rightarrow>
                                     (case assign_trimmed (b_description b) (description t) of
                                        Inl err \<Rightarrow> Inl err
                                      | Inr descr \<Rightarrow>
                                          (case assign_status (b_status b) (status t) of
                                             Inl err \<Rightarrow> Inl err
                                           | Inr s \<Rightarrow>
                                               (case Task_save e
                                                       (t\<lparr>title := ttl, description := descr,
                                                          status := s\<rparr>) st of
                                                  Inl err \<Rightarrow> Inl err
                                                | Inr (updatedTask, st') \<Rightarrow>
                                                    Inr (ok_response 200 (TaskData updatedTask)
                                                           ''Task updated successfully.'',
                                                         st'))))))))))"

definition updateTask :: "env \<Rightarrow> request \<Rightarrow> store \<Rightarrow> response \<times> store" where
  "updateTask e req st =
     (case updateTask_try e req st of
        Inr r \<Rightarrow> r
      | Inl err \<Rightarrow> (failure 500 ''Internal server error while updating task.'', st))"

definition deleteTask_try :: "env \<Rightarrow> request \<Rightarrow> store \<Rightarrow> js_error + (response \<times> store)" where
  "deleteTask_try e req st =
     (case taskId req of
        None \<Rightarrow> Inr (failure 400 ''Task ID is required.'', st)
      | Some tid \<Rightarrow>
          if tid = [] then Inr (failure 400 ''Task ID is required.'', st)
          else if \<not> ObjectId_isValid e tid
          then Inr (failure 400 ''Invalid task ID format.'', st)
          else
            (case ObjectId_new e (Some tid) of
               Inl err \<Rightarrow> Inl err
             | Inr oid \<Rightarrow>
                 (case Task_findOneAndDelete st oid of
                    (None, st') \<Rightarrow>
                      Inr (failure 404
                        ''Task not found or you don't have permission to delete it.'', st')
                  | (Some deletedTask, st') \<Rightarrow>
                      Inr (ok_response 200 (TaskData deletedTask)
                             ''Task deleted successfully.'', st'))))"

definition deleteTask :: "env \<Rightarrow> request \<Rightarrow> store \<Rightarrow> response \<times> store" where
  "deleteTask e req st =
     (case deleteTask_try e req st of
        Inr r \<Rightarrow> r
      | Inl err \<Rightarrow> (failure 500 ''Internal server error while deleting task.'', st))"

section \<open>The routes\<close>

text \<open>
  The routing table of the server: each task route runs \<^verbatim>\<open>authMiddleware\<close>, the delete
  route \<^verbatim>\<open>isAdminMiddleware\<close> after it, and then the handler. The list route
  \<^verbatim>\<open>GET /api/v1/tasks\<close> is registered with \<^verbatim>\<open>getAllTasks\<close>.
\<close>

definition post_tasks :: "env \<Rightarrow> request \<Rightarrow> store \<Rightarrow> response \<times> store" where
  "post_tasks e req st =
     (case authMiddleware e req of
        Inl r \<Rightarrow> (r, st)
      | Inr req' \<Rightarrow> createTask e req' st)"

definition get_tasks :: "env \<Rightarrow> request \<Rightarrow> store \<Rightarrow> response" where
  "get_tasks e req st =
     (case authMiddleware e req of
        Inl r \<Rightarrow> r
      | Inr req' \<Rightarrow> getAllTasks e req' st)"

definition put_task :: "env \<Rightarrow> request \<Rightarrow> store \<Rightarrow> response \<times> store" where
  "put_task e req st =
     (case authMiddleware e req of
        Inl r \<Rightarrow> (r, st)
      | Inr req' \<Rightarrow> updateTask e req' st)"

definition delete_task :: "env \<Rightarrow> request \<Rightarrow> store \<Rightarrow> response \<times> store" where
  "delete_task e req st =
     (case authMiddleware e req of
        Inl r \<Rightarrow> (r, st)
      | Inr req' \<Rightarrow>
          (case isAdminMiddleware req' of
             Inl r \<Rightarrow> (r, st)
           | Inr req'' \<Rightarrow> deleteTask e req'' st))"

section \<open>A concrete environment\<close>

text \<open>
  One instance of the libraries, used to run the handlers on concrete requests: tokens
  that verify (two users, an administrator, and one whose id is the empty string), one
  that is expired, every other token invalid; ObjectIds are the strings of 24 hexadecimal
  digits; a pattern matches the titles that contain it, letter case ignored; the schema
  wants a non-empty title and one of the two status values.
\<close>

definition idA :: objectid where "idA = ''aaaaaaaaaaaaaaaaaaaaaaaa''"
definition idB :: objectid where "idB = ''bbbbbbbbbbbbbbbbbbbbbbbb''"
definition idAdmin :: objectid where "idAdmin = ''cccccccccccccccccccccccc''"

definition jwt_verify0 :: "jsval \<Rightarrow> string \<Rightarrow> js_error + user_ctx" where
  "jwt_verify0 token secret =
     (if secret \<noteq> ''task-manager-secret'' then Inl (VerifyError False True)
      else if token = JStr ''token-a'' then Inr \<lparr>ctx_id = idA, ctx_role = ''user''\<rparr>
      else if token = JStr ''token-b'' then Inr \<lparr>ctx_id = idB, ctx_role = ''user''\<rparr>
      else if token = JStr ''token-admin'' then Inr \<lparr>ctx_id = idAdmin, ctx_role = ''admin''\<rparr>
      else if token = JStr ''token-noid'' then Inr \<lparr>ctx_id = [], ctx_role = ''user''\<rparr>
      else if token = JStr ''token-old'' then Inl (VerifyError True True)
      else Inl (VerifyError False True))"

definition is_hex24 :: "string \<Rightarrow> bool" where
  "is_hex24 s = (length s = 24 \<and> list_all (\<lambda>c. c \<in> set ''0123456789abcdefABCDEF'') s)"

definition ObjectId_new0 :: "string option \<Rightarrow> js_error + objectid" where
  "ObjectId_new0 x =
     (case x of
        None \<Rightarrow> Inr ''ffffffffffffffffffffffff''
      | Some s \<Rightarrow> if is_hex24 s then Inr (toLowerCase s) else Inl BSONError)"

fun contains :: "string \<Rightarrow> string \<Rightarrow> bool" where
  "contains pat [] = (pat = [])"
| "contains pat (c # cs) = (take (length pat) (c # cs) = pat \<or> contains pat cs)"

definition fresh_id0 :: "task list \<Rightarrow> objectid" where
  "fresh_id0 ts = replicate (24 - length ts) CHR ''0'' @ replicate (length ts) CHR ''1''"

definition env0 :: env where
  "env0 = \<lparr>JWT_SECRET = None,
           jwt_verify = jwt_verify0,
           ObjectId_isValid = is_hex24,
           ObjectId_new = ObjectId_new0,
           regex_compile = (\<lambda>pat. Some (\<lambda>ttl. contains (toLowerCase pat) (toLowerCase ttl))),
           schema_cast_status = (\<lambda>v. case v of JStr s \<Rightarrow> Some s | _ \<Rightarrow> None),
           schema_accepts = (\<lambda>t. title t \<noteq> [] \<and> status t \<in> set [''pending'', ''completed'']),
           fresh_id = fresh_id0,
           now = 1000\<rparr>"

definition no_body :: req_body where
  "no_body = \<lparr>b_title = JUndefined, b_description = JUndefined, b_status = JUndefined,
              b_token = JUndefined\<rparr>"

definition bearer :: "string \<Rightarrow> request" where
  "bearer tok =
     \<lparr>authorization = Some (''Bearer '' @ tok), cookie_token = JUndefined, body = Some no_body,
      user = None, taskId = None, q_page = None, q_limit = None, q_search = None,
      q_sort = None\<rparr>"

text \<open>
  The store with the two registered users A and B and no task, and the store after user A
  has posted the task \<^verbatim>\<open>{title: "buy milk"}\<close>.
\<close>

definition empty_store :: store where
  "empty_store =
     \<lparr>tasks = [],
      users = [\<lparr>u_id = idA, username = ''u1'', email = ''a@x.com''\<rparr>,
               \<lparr>u_id = idB, username = ''u2'', email = ''b@x.com''\<rparr>]\<rparr>"

definition store_A :: store where
  "store_A =
     snd (post_tasks env0 ((bearer ''token-a'')\<lparr>body := Some (no_body\<lparr>b_title := JStr ''buy milk''\<rparr>)\<rparr>)
            empty_store)"

text \<open>
  The requests and documents of the examples: the task user A created and its id, the
  task user B creates next and the store that holds both, requests that carry the
  identity of A and of B, the administrator's delete request, update bodies, and requests
  whose user id is malformed or empty.
\<close>

definition tid_A :: string where
  "tid_A = ''000000000000000000000000''"

definition task_A :: task where
  "task_A = \<lparr>t_id = tid_A, title = ''buy milk'', description = [],
             status = ''pending'', createdBy = idA, createdAt = 1000\<rparr>"

definition task_B :: task where
  "task_B = \<lparr>t_id = ''000000000000000000000001'', title = ''walk dog'', description = [],
             status = ''pending'', createdBy = idB, createdAt = 1000\<rparr>"

definition store_AB :: store where
  "store_AB =
     snd (post_tasks env0 ((bearer ''token-b'')\<lparr>body := Some (no_body\<lparr>b_title := JStr '' walk dog ''\<rparr>)\<rparr>)
            store_A)"

definition req_A :: request where
  "req_A = (bearer ''token-a'')\<lparr>user := Some \<lparr>ctx_id = idA, ctx_role = ''user''\<rparr>\<rparr>"

definition req_B :: request where
  "req_B = (bearer ''token-b'')\<lparr>user := Some \<lparr>ctx_id = idB, ctx_role = ''user''\<rparr>\<rparr>"

definition req_admin_delete :: request where
  "req_admin_delete = (bearer ''token-admin'')\<lparr>taskId := Some tid_A\<rparr>"

definition body_completed :: req_body where
  "body_completed = no_body\<lparr>b_status := JStr ''completed''\<rparr>"

definition req_A_complete :: request where
  "req_A_complete = req_A\<lparr>taskId := Some tid_A, body := Some body_completed\<rparr>"

definition body_blank_status :: req_body where
  "body_blank_status = no_body\<lparr>b_title := JStr ''x'', b_status := JStr []\<rparr>"

definition body_bad_status :: req_body where
  "body_bad_status = no_body\<lparr>b_status := JStr ''done''\<rparr>"

definition body_titled :: req_body where
  "body_titled = no_body\<lparr>b_title := JStr ''buy milk''\<rparr>"

definition req_bad_id :: request where
  "req_bad_id = (bearer ''token-x'')\<lparr>user := Some \<lparr>ctx_id = ''not-an-id'', ctx_role = ''user''\<rparr>,
                                     body := Some body_titled\<rparr>"

definition req_empty_id :: request where
  "req_empty_id = (bearer ''token-noid'')\<lparr>user := Some \<lparr>ctx_id = [], ctx_role = ''user''\<rparr>,
                                          body := Some body_titled\<rparr>"

section \<open>Sort and pagination parameters: properties\<close>










text \<open>
  The limit is always an integer between 1 and 100, and the page is an integer of at
  least 1 for every value but \<^verbatim>\<open>Infinity\<close>.
\<close>

lemma parsePaginationParams_limit_range:
  "\<exists>m. snd (parsePaginationParams qp ql) = Fin (of_int m) \<and> 1 \<le> m \<and> m \<le> 100"
proof (cases ql)
  case None
  then show ?thesis
    by (auto simp: parsePaginationParams_def Let_def intro: exI [of _ 10])
next
  case (Some n)
  show ?thesis
  proof (cases n)
    case (Fin r)
    show ?thesis
    proof (cases "r < 1")
      case True
      with Some Fin show ?thesis
        by (auto simp: parsePaginationParams_def Let_def intro: exI [of _ 10])
    next
      case False
      then have "1 \<le> \<lfloor>r\<rfloor>" by linarith
      with Some Fin False show ?thesis
        by (auto simp: parsePaginationParams_def Let_def intro: exI [of _ 100] exI [of _ "\<lfloor>r\<rfloor>"])
    qed
  qed (use Some in \<open>auto simp: parsePaginationParams_def Let_def intro: exI [of _ 10] exI [of _ 100]\<close>)
qed

lemma parsePaginationParams_page_finite:
  assumes "qp \<noteq> Some PInf"
  shows "\<exists>k. fst (parsePaginationParams qp ql) = Fin (of_int k) \<and> 1 \<le> k"
proof (cases qp)
  case None
  then show ?thesis
    by (auto simp: parsePaginationParams_def Let_def intro: exI [of _ 1])
next
  case (Some n)
  show ?thesis
  proof (cases n)
    case (Fin r)
    show ?thesis
    proof (cases "r < 1")
      case True
      with Some Fin show ?thesis
        by (auto simp: parsePaginationParams_def Let_def intro: exI [of _ 1])
    next
      case False
      then have "1 \<le> \<lfloor>r\<rfloor>" by linarith
      with Some Fin False show ?thesis
        by (auto simp: parsePaginationParams_def Let_def)
    qed
  qed (use Some assms in \<open>auto simp: parsePaginationParams_def Let_def intro: exI [of _ 1]\<close>)
qed

lemma parsePaginationParams_values:
  "parsePaginationParams None None = (Fin 1, Fin 10)"
  "parsePaginationParams (Some (Fin 0)) (Some (Fin 500)) = (Fin 1, Fin 100)"
  "parsePaginationParams (Some (Fin (- 5))) (Some NaN) = (Fin 1, Fin 10)"
  "parsePaginationParams (Some NaN) (Some (Fin 0)) = (Fin 1, Fin 10)"
  by (simp_all add: parsePaginationParams_def)

text \<open>
  C3 (the page is floored to an integer): for the page \<^verbatim>\<open>Infinity\<close>, which is neither
  NaN nor below 1, \<^verbatim>\<open>Math.floor\<close> returns \<^verbatim>\<open>Infinity\<close>, so the page is not an integer
  and the number of documents to skip is infinite.
\<close>

theorem parsePaginationParams_infinite_page:
  "fst (parsePaginationParams (Some PInf) None) = PInf
   \<and> \<not> isInteger (fst (parsePaginationParams (Some PInf) None))
   \<and> skip_of (fst (parsePaginationParams (Some PInf) None))
        (snd (parsePaginationParams (Some PInf) None)) = PInf"
  by (simp add: parsePaginationParams_def skip_of_def)

section \<open>The middleware: properties\<close>

text \<open>
  C9. \<^verbatim>\<open>isAdminMiddleware\<close> answers every request: it hands the request on only when
  the attached role is exactly the string \<^verbatim>\<open>admin\<close>; for any other role, and when no
  identity is attached at all, it answers 403 with the admins-only message. On the delete
  route, which runs it after \<^verbatim>\<open>authMiddleware\<close>, the handler is reached only with the
  role \<^verbatim>\<open>admin\<close>, and a refused request leaves the store as it was.
\<close>

theorem isAdminMiddleware_admins_only:
  "isAdminMiddleware req =
     (case user req of
        None \<Rightarrow> Inl (failure 403 ''Access denied. Admins only.'')
      | Some u \<Rightarrow>
          if ctx_role u = ''admin'' then Inr req
          else Inl (failure 403 ''Access denied. Admins only.''))
   \<and> res_status (failure 403 ''Access denied. Admins only.'') = 403
   \<and> delete_task e req st =
       (case authMiddleware e req of
          Inl r \<Rightarrow> (r, st)
        | Inr req' \<Rightarrow>
            if map_option ctx_role (user req') = Some ''admin'' then deleteTask e req' st
            else (failure 403 ''Access denied. Admins only.'', st))"
  by (auto simp: isAdminMiddleware_def delete_task_def failure_def split: option.splits sum.splits)

text \<open>
  How \<^verbatim>\<open>authMiddleware\<close> answers a failed verification: by the class of the error
  thrown, the expiry class first.
\<close>

lemma authMiddleware_verify_failure:
  assumes "truthy (extract_token req)"
    and "jwt_verify e (extract_token req) (secret_of e) = Inl err"
  shows "authMiddleware e req =
           Inl (if instanceof_TokenExpiredError err
                then failure 401 ''Token has expired. Please log in again.''
                else if instanceof_JsonWebTokenError err
                then failure 403 ''Invalid token. Authorization denied.''
                else failure 500 ''Authentication error. Please try again.'')"
  using assms by (simp add: authMiddleware_def)

section \<open>The task handlers: properties\<close>

subsection \<open>Listing\<close>

lemma window_subset: "window sk l xs = Inr ys \<Longrightarrow> set ys \<subseteq> set xs"
  by (auto simp: window_def split: js_number.splits if_splits dest: in_set_takeD in_set_dropD)

lemma set_sort_tasks: "set (sort_tasks sortObj xs) = set xs"
  by (simp add: sort_tasks_def Let_def)

lemma compile_filter_owner:
  assumes "compile_filter e \<lparr>f_createdBy = Some owner, f_title = pat\<rparr> = Inr p" and "p t"
  shows "createdBy t = owner"
  using assms by (auto simp: compile_filter_def split: option.splits)

lemma Task_find_owner:
  assumes "Task_find e st \<lparr>f_createdBy = Some owner, f_title = pat\<rparr> sortObj sk l = Inr docs"
    and "(t, u) \<in> set docs"
  shows "createdBy t = owner \<and> t \<in> set (tasks st)"
proof -
  from assms(1) obtain p ys where p: "compile_filter e \<lparr>f_createdBy = Some owner, f_title = pat\<rparr> = Inr p"
    and ys: "window sk l (sort_tasks sortObj (filter p (tasks st))) = Inr ys"
    and docs: "docs = map (populate st) ys"
    by (auto simp: Task_find_def split: sum.splits)
  from docs assms(2) have "t \<in> set ys"
    by (auto simp: populate_def)
  with window_subset [OF ys] have "t \<in> set (filter p (tasks st))"
    by (auto simp: set_sort_tasks)
  with compile_filter_owner [OF p] show ?thesis
    by simp
qed

text \<open>
  C6. Whatever the page, limit, search and sort parameters are, every task in the
  answer of \<^verbatim>\<open>getTasks\<close> is a stored task whose \<open>createdBy\<close> is the ObjectId of
  the id attached to the request.
\<close>

theorem getTasks_only_owner:
  assumes "data (getTasks e req st) = PageData docs pg lmt cnt tp"
    and "(t, u) \<in> set docs"
  shows "\<exists>c. user req = Some c \<and> ObjectId_new e (Some (ctx_id c)) = Inr (createdBy t)
              \<and> t \<in> set (tasks st)"
proof -
  from assms(1) obtain r where r: "getTasks_try e req st = Inr r" and d: "data r = PageData docs pg lmt cnt tp"
    by (auto simp: getTasks_def failure_def split: sum.splits)
  from r d obtain c owner pat where c: "user req = Some c"
    and owner: "ObjectId_new e (Some (ctx_id c)) = Inr owner"
    and f: "Task_find e st \<lparr>f_createdBy = Some owner, f_title = pat\<rparr>
              (parse_sort (sortParam_of (q_sort req))) (skip_of pg lmt) lmt = Inr docs"
    by (auto simp: getTasks_try_def failure_def ok_response_def Let_def
        split: option.splits if_splits sum.splits prod.splits)
  from Task_find_owner [OF f assms(2)] c owner show ?thesis
    by simp
qed

theorem getTasks_only_owner_witness:
  "tasks store_AB = [task_A, task_B]
   \<and> data (getTasks env0 req_A store_AB) =
       PageData [(task_A, Some \<lparr>u_id = idA, username = ''u1'', email = ''a@x.com''\<rparr>)]
         (Fin 1) (Fin 10) (Fin 1) (Fin 1)
   \<and> (\<exists>c. user req_A = Some c \<and> ObjectId_new env0 (Some (ctx_id c)) = Inr (createdBy task_A)
           \<and> task_A \<in> set (tasks store_AB))"
proof -
  have s: "tasks store_AB = [task_A, task_B]"
    by code_simp
  have d: "data (getTasks env0 req_A store_AB) =
     PageData [(task_A, Some \<lparr>u_id = idA, username = ''u1'', email = ''a@x.com''\<rparr>)]
       (Fin 1) (Fin 10) (Fin 1) (Fin 1)"
    by code_simp
  have m: "(task_A, Some \<lparr>u_id = idA, username = ''u1'', email = ''a@x.com''\<rparr>)
             \<in> set [(task_A, Some \<lparr>u_id = idA, username = ''u1'', email = ''a@x.com''\<rparr>)]"
    by simp
  from getTasks_only_owner [OF d m] d s show ?thesis
    by simp
qed

text \<open>
  C1 (another user receives no item from \<^verbatim>\<open>GET /api/v1/tasks\<close>): the route runs
  \<^verbatim>\<open>getAllTasks\<close>, whose filter has no owner. After user A has created a task, the
  request of user B is answered with that task; \<^verbatim>\<open>getTasks\<close>, which no route uses,
  answers the same request with no item.
\<close>

theorem get_tasks_returns_other_users_tasks:
  "store_A = empty_store\<lparr>tasks := [task_A]\<rparr>
   \<and> createdBy task_A = idA \<and> idA \<noteq> idB
   \<and> authMiddleware env0 (bearer ''token-b'') = Inr req_B
   \<and> get_tasks env0 (bearer ''token-b'') store_A =
       ok_response 200
         (PageData [(task_A, Some \<lparr>u_id = idA, username = ''u1'', email = ''a@x.com''\<rparr>)]
            (Fin 1) (Fin 10) (Fin 1) (Fin 1))
         ''Tasks fetched successfully.''
   \<and> getTasks env0 req_B store_A =
       ok_response 200 (PageData [] (Fin 1) (Fin 10) (Fin 0) (Fin 1)) ''Tasks fetched successfully.''"
  by code_simp

subsection \<open>Deleting\<close>

lemma find_by_id:
  assumes "distinct (map t_id xs)" and "t \<in> set xs"
  shows "find (\<lambda>x. t_id x = t_id t) xs = Some t"
  using assms by (induction xs) (auto simp: image_iff)

lemma delete_doc_remove1:
  assumes "distinct (map t_id xs)" and "t \<in> set xs"
  shows "delete_doc (t_id t) xs = remove1 t xs"
  using assms by (induction xs) (auto simp: image_iff)

lemma authMiddleware_verified:
  assumes "truthy (extract_token req)"
    and "jwt_verify e (extract_token req) (secret_of e) = Inr c"
  shows "authMiddleware e req = Inr (req\<lparr>user := Some c\<rparr>)"
  using assms by (simp add: authMiddleware_def)

lemma deleteTask_found:
  assumes "taskId req = Some tid" and "tid \<noteq> []" and "ObjectId_isValid e tid"
    and "ObjectId_new e (Some tid) = Inr (t_id t)"
    and "t \<in> set (tasks st)" and "distinct (map t_id (tasks st))"
  shows "deleteTask e req st =
           (ok_response 200 (TaskData t) ''Task deleted successfully.'',
            st\<lparr>tasks := remove1 t (tasks st)\<rparr>)"
  using assms
  by (simp add: deleteTask_def deleteTask_try_def Task_findOneAndDelete_def find_by_id
      delete_doc_remove1)

text \<open>
  C7. \<^verbatim>\<open>deleteTask\<close> finds the task by its id alone: for a well-formed id of a
  stored task it removes that task and returns it with 200, whoever is attached to the
  request and whoever created the task; and the delete route answers so for every request
  whose token verifies with the role \<^verbatim>\<open>admin\<close>. Ids are unique in the collection.
\<close>

theorem deleteTask_by_id_alone:
  assumes "taskId req = Some tid" and "tid \<noteq> []" and "ObjectId_isValid e tid"
    and "ObjectId_new e (Some tid) = Inr (t_id t)"
    and "t \<in> set (tasks st)" and "distinct (map t_id (tasks st))"
    and "truthy (extract_token req)"
    and "jwt_verify e (extract_token req) (secret_of e) = Inr c"
    and "ctx_role c = ''admin''"
  shows "deleteTask e (req\<lparr>user := who\<rparr>) st =
           (ok_response 200 (TaskData t) ''Task deleted successfully.'',
            st\<lparr>tasks := remove1 t (tasks st)\<rparr>)
         \<and> delete_task e req st =
           (ok_response 200 (TaskData t) ''Task deleted successfully.'',
            st\<lparr>tasks := remove1 t (tasks st)\<rparr>)
         \<and> res_status (fst (delete_task e req st)) = 200
         \<and> t \<notin> set (tasks (snd (delete_task e req st)))"
proof -
  have 1: "deleteTask e (req\<lparr>user := who\<rparr>) st =
           (ok_response 200 (TaskData t) ''Task deleted successfully.'',
            st\<lparr>tasks := remove1 t (tasks st)\<rparr>)" for who
    using assms(1-6) by (intro deleteTask_found) simp_all
  have 2: "delete_task e req st = deleteTask e (req\<lparr>user := Some c\<rparr>) st"
    using assms(7-9) by (simp add: delete_task_def authMiddleware_verified isAdminMiddleware_def)
  have "distinct (tasks st)"
    using assms(6) by (simp add: distinct_map)
  then have 3: "t \<notin> set (remove1 t (tasks st))"
    by simp
  from 1 2 3 show ?thesis
    by (simp add: ok_response_def)
qed

theorem deleteTask_by_id_alone_witness:
  "createdBy task_A = idA
   \<and> jwt_verify env0 (extract_token req_admin_delete) (secret_of env0) =
       Inr \<lparr>ctx_id = idAdmin, ctx_role = ''admin''\<rparr>
   \<and> delete_task env0 req_admin_delete store_A =
       (ok_response 200 (TaskData task_A) ''Task deleted successfully.'', empty_store)
   \<and> deleteTask env0 (req_admin_delete\<lparr>user := Some \<lparr>ctx_id = idB, ctx_role = ''user''\<rparr>\<rparr>) store_A =
       (ok_response 200 (TaskData task_A) ''Task deleted successfully.'', empty_store)"
proof -
  have h1: "taskId req_admin_delete = Some tid_A" by code_simp
  have h2: "tid_A \<noteq> []" by code_simp
  have h3: "ObjectId_isValid env0 tid_A" by code_simp
  have h4: "ObjectId_new env0 (Some tid_A) = Inr (t_id task_A)" by code_simp
  have h5: "task_A \<in> set (tasks store_A)" by code_simp
  have h6: "distinct (map t_id (tasks store_A))" by code_simp
  have h7: "truthy (extract_token req_admin_delete)" by code_simp
  have h8: "jwt_verify env0 (extract_token req_admin_delete) (secret_of env0) =
       Inr \<lparr>ctx_id = idAdmin, ctx_role = ''admin''\<rparr>" by code_simp
  have h9: "ctx_role \<lparr>ctx_id = idAdmin, ctx_role = ''admin''\<rparr> = ''admin''" by simp
  have s: "store_A\<lparr>tasks := remove1 task_A (tasks store_A)\<rparr> = empty_store" by code_simp
  have a: "createdBy task_A = idA" by code_simp
  from deleteTask_by_id_alone [OF h1 h2 h3 h4 h5 h6 h7 h8 h9,
      of "Some \<lparr>ctx_id = idB, ctx_role = ''user''\<rparr>"] h8 s a
  show ?thesis by simp
qed

subsection \<open>Updating\<close>

lemma update_doc_map:
  assumes "distinct (map t_id xs)"
  shows "update_doc t' xs = map (\<lambda>x. if t_id x = t_id t' then t' else x) xs"
  using assms
proof (induction xs)
  case Nil
  then show ?case by simp
next
  case (Cons x xs)
  have "t_id x = t_id t' \<Longrightarrow> map (\<lambda>x. if t_id x = t_id t' then t' else x) xs = xs"
    using Cons.prems by (intro map_idI) (auto simp: image_iff)
  with Cons show ?case by simp
qed

lemma toLowerCase_allowed:
  "status_allowed (JStr s) \<Longrightarrow> toLowerCase s = s"
  by (auto simp: status_allowed_def toLowerCase_def lower_char_def upper_letters_def lower_letters_def)

lemma assign_trimmed_string_or_falsy:
  assumes "\<not> truthy v \<or> (\<exists>s. v = JStr s)"
  shows "assign_trimmed v old =
           Inr (case v of JStr s \<Rightarrow> if s = [] then old else trim s | _ \<Rightarrow> old)"
  using assms by (cases v) (auto simp: assign_trimmed_def)

lemma assign_status_allowed_or_falsy:
  assumes "\<not> truthy v \<or> status_allowed v"
  shows "assign_status v old =
           Inr (case v of JStr s \<Rightarrow> if s = [] then old else s | _ \<Rightarrow> old)"
  using assms
  by (cases v) (auto simp: assign_status_def toLowerCase_allowed, auto simp: status_allowed_def)

lemma assign_trimmed_not_string:
  assumes "truthy v" and "\<not> (\<exists>s. v = JStr s)"
  shows "assign_trimmed v old = Inl TypeError"
  using assms by (cases v) (auto simp: assign_trimmed_def)

text \<open>
  C8. An update of an existing task of the caller overwrites exactly the fields that are
  supplied with a truthy value: a title and a description by their trimmed text, a status
  by the value supplied; a falsy value (the empty string, an absent field) leaves the
  field as it was, and every other task, and the id, owner and creation time of this
  one, stay as they were. With only \<^verbatim>\<open>{status: "completed"}\<close> supplied the title and
  the description are unchanged and the status becomes \<^verbatim>\<open>completed\<close>. The update is
  stored unless a truthy title or description is not a string (its \<^verbatim>\<open>trim\<close> throws) or
  the schema rejects the document; then the answer is 500 and the store is unchanged.
\<close>

theorem updateTask_partial_update:
  assumes "body req = Some b" and "taskId req = Some tid" and "tid \<noteq> []"
    and "ObjectId_isValid e tid" and "ObjectId_new e (Some tid) = Inr oid"
    and "ObjectId_new e (map_option ctx_id (user req)) = Inr owner"
    and "Task_findOne st oid owner = Some t"
    and "distinct (map t_id (tasks st))"
    and "\<not> truthy (b_status b) \<or> status_allowed (b_status b)"
    and "truthy (b_title b) \<or> truthy (b_description b) \<or> truthy (b_status b)"
    and "t' = t\<lparr>title := (case b_title b of JStr s \<Rightarrow> if s = [] then title t else trim s
                                            | _ \<Rightarrow> title t),
                 description := (case b_description b of
                                   JStr s \<Rightarrow> if s = [] then description t else trim s
                                 | _ \<Rightarrow> description t),
                 status := (case b_status b of JStr s \<Rightarrow> if s = [] then status t else s
                                              | _ \<Rightarrow> status t)\<rparr>"
  shows "updateTask e req st =
           (if (truthy (b_title b) \<and> \<not> (\<exists>s. b_title b = JStr s))
               \<or> (truthy (b_description b) \<and> \<not> (\<exists>s. b_description b = JStr s))
               \<or> \<not> schema_accepts e t'
            then (failure 500 ''Internal server error while updating task.'', st)
            else (ok_response 200 (TaskData t') ''Task updated successfully.'',
                  st\<lparr>tasks := map (\<lambda>x. if t_id x = t_id t then t' else x) (tasks st)\<rparr>))
         \<and> (b_title b = JUndefined \<and> b_description b = JUndefined
              \<and> b_status b = JStr ''completed''
            \<longrightarrow> t' = t\<lparr>status := ''completed''\<rparr>)"
proof -
  have only_status: "b_title b = JUndefined \<and> b_description b = JUndefined
              \<and> b_status b = JStr ''completed''
            \<longrightarrow> t' = t\<lparr>status := ''completed''\<rparr>"
    using assms(11) by simp
  have reach: "updateTask_try e req st =
      (case assign_trimmed (b_title b) (title t) of
         Inl err \<Rightarrow> Inl err
       | Inr ttl \<Rightarrow>
           (case assign_trimmed (b_description b) (description t) of
              Inl err \<Rightarrow> Inl err
            | Inr descr \<Rightarrow>
                (case assign_status (b_status b) (status t) of
                   Inl err \<Rightarrow> Inl err
                 | Inr s \<Rightarrow>
                     (case Task_save e (t\<lparr>title := ttl, description := descr, status := s\<rparr>) st of
                        Inl err \<Rightarrow> Inl err
                      | Inr (updatedTask, st') \<Rightarrow>
                          Inr (ok_response 200 (TaskData updatedTask)
                                 ''Task updated successfully.'', st')))))"
    using assms(1-7,9,10) by (auto simp: updateTask_try_def)
  show ?thesis
  proof (cases "(truthy (b_title b) \<and> \<not> (\<exists>s. b_title b = JStr s))
               \<or> (truthy (b_description b) \<and> \<not> (\<exists>s. b_description b = JStr s))")
    case True
    then have "\<exists>err. updateTask_try e req st = Inl err"
      unfolding reach
      by (auto simp: assign_trimmed_not_string split: sum.splits)
    with True only_status show ?thesis
      by (auto simp: updateTask_def)
  next
    case False
    then have ok1: "\<not> truthy (b_title b) \<or> (\<exists>s. b_title b = JStr s)"
      and ok2: "\<not> truthy (b_description b) \<or> (\<exists>s. b_description b = JStr s)"
      by auto
    have id: "t_id t' = t_id t"
      using assms(11) by simp
    have save: "Task_save e t' st =
        (if schema_accepts e t'
         then Inr (t', st\<lparr>tasks := map (\<lambda>x. if t_id x = t_id t then t' else x) (tasks st)\<rparr>)
         else Inl ValidationError)"
      using update_doc_map [OF assms(8), of t'] by (simp add: Task_save_def id)
    have "updateTask_try e req st =
        (case Task_save e t' st of
           Inl err \<Rightarrow> Inl err
         | Inr (updatedTask, st') \<Rightarrow>
             Inr (ok_response 200 (TaskData updatedTask) ''Task updated successfully.'', st'))"
      unfolding reach
      by (simp add: assign_trimmed_string_or_falsy [OF ok1] assign_trimmed_string_or_falsy [OF ok2]
          assign_status_allowed_or_falsy [OF assms(9)] assms(11))
    with False only_status show ?thesis
      by (auto simp: updateTask_def save)
  qed
qed

theorem updateTask_partial_update_witness:
  "Task_findOne store_AB tid_A idA = Some task_A
   \<and> updateTask env0 req_A_complete store_AB =
       (ok_response 200 (TaskData (task_A\<lparr>status := ''completed''\<rparr>)) ''Task updated successfully.'',
        store_AB\<lparr>tasks := [task_A\<lparr>status := ''completed''\<rparr>, task_B]\<rparr>)
   \<and> title (task_A\<lparr>status := ''completed''\<rparr>) = ''buy milk''"
proof -
  have h1: "body req_A_complete = Some body_completed" by code_simp
  have h2: "taskId req_A_complete = Some tid_A" by code_simp
  have h3: "tid_A \<noteq> []" by code_simp
  have h4: "ObjectId_isValid env0 tid_A" by code_simp
  have h5: "ObjectId_new env0 (Some tid_A) = Inr tid_A" by code_simp
  have h6: "ObjectId_new env0 (map_option ctx_id (user req_A_complete)) = Inr idA" by code_simp
  have h7: "Task_findOne store_AB tid_A idA = Some task_A" by code_simp
  have h8: "distinct (map t_id (tasks store_AB))" by code_simp
  have h9: "\<not> truthy (b_title body_completed)"
    by (simp add: body_completed_def no_body_def)
  have h10: "\<not> truthy (b_description body_completed)"
    by (simp add: body_completed_def no_body_def)
  have h11: "\<not> truthy (b_status body_completed) \<or> status_allowed (b_status body_completed)"
    by (simp add: body_completed_def no_body_def status_allowed_def)
  have h12: "truthy (b_title body_completed) \<or> truthy (b_description body_completed)
             \<or> truthy (b_status body_completed)"
    by (simp add: body_completed_def no_body_def)
  have h13: "task_A\<lparr>status := ''completed''\<rparr> =
      task_A\<lparr>title := (case b_title body_completed of
                          JStr s \<Rightarrow> if s = [] then title task_A else trim s
                        | _ \<Rightarrow> title task_A),
             description := (case b_description body_completed of
                               JStr s \<Rightarrow> if s = [] then description task_A else trim s
                             | _ \<Rightarrow> description task_A),
             status := (case b_status body_completed of
                          JStr s \<Rightarrow> if s = [] then status task_A else s
                        | _ \<Rightarrow> status task_A)\<rparr>"
    by (simp add: body_completed_def no_body_def)
  have a: "schema_accepts env0 (task_A\<lparr>status := ''completed''\<rparr>)" by code_simp
  have m: "map (\<lambda>x. if t_id x = t_id task_A then task_A\<lparr>status := ''completed''\<rparr> else x) (tasks store_AB)
           = [task_A\<lparr>status := ''completed''\<rparr>, task_B]" by code_simp
  have t: "title (task_A\<lparr>status := ''completed''\<rparr>) = ''buy milk''" by code_simp
  from updateTask_partial_update [OF h1 h2 h3 h4 h5 h6 h7 h8 h11 h12 h13] h9 h10 a m h7 t
  show ?thesis by simp
qed

text \<open>
  C4, as the code has it. When the status supplied is truthy, the update succeeds only
  if the status, lower-cased, is exactly \<^verbatim>\<open>pending\<close> or \<^verbatim>\<open>completed\<close>; every other
  truthy status value is answered 400 and the store is unchanged.
\<close>

theorem updateTask_status_validation:
  assumes "body req = Some b" and "truthy (b_status b)"
  shows "(res_status (fst (updateTask e req st)) = 200
            \<longrightarrow> (\<exists>s. b_status b = JStr s \<and> toLowerCase s \<in> set [''pending'', ''completed'']))
         \<and> (\<not> (\<exists>s. b_status b = JStr s \<and> toLowerCase s \<in> set [''pending'', ''completed''])
            \<longrightarrow> res_status (fst (updateTask e req st)) = 400 \<and> snd (updateTask e req st) = st)"
proof (cases "status_allowed (b_status b)")
  case True
  then obtain s where "b_status b = JStr s" and "status_allowed (JStr s)"
    by (auto simp: status_allowed_def)
  with toLowerCase_allowed [of s] have "\<exists>s. b_status b = JStr s
      \<and> toLowerCase s \<in> set [''pending'', ''completed'']"
    by (auto simp: status_allowed_def)
  then show ?thesis
    by simp
next
  case False
  with assms have "\<exists>m. updateTask_try e req st = Inr (failure 400 m, st)"
    by (auto simp: updateTask_try_def split: option.splits)
  then have "res_status (fst (updateTask e req st)) = 400 \<and> snd (updateTask e req st) = st"
    by (auto simp: updateTask_def failure_def)
  then show ?thesis
    by simp
qed

theorem updateTask_status_validation_witness:
  "truthy (b_status body_bad_status)
   \<and> res_status (fst (updateTask env0 (req_A\<lparr>taskId := Some tid_A, body := Some body_bad_status\<rparr>) store_A)) = 400
   \<and> snd (updateTask env0 (req_A\<lparr>taskId := Some tid_A, body := Some body_bad_status\<rparr>) store_A) = store_A"
proof -
  have h1: "body (req_A\<lparr>taskId := Some tid_A, body := Some body_bad_status\<rparr>) = Some body_bad_status"
    by simp
  have h2: "truthy (b_status body_bad_status)" by code_simp
  have n: "\<not> (\<exists>s. b_status body_bad_status = JStr s
                \<and> toLowerCase s \<in> set [''pending'', ''completed''])"
    by (simp add: body_bad_status_def toLowerCase_def lower_char_def upper_letters_def
        lower_letters_def)
  from updateTask_status_validation [OF h1 h2, of env0 store_A] n h2 show ?thesis
    by simp
qed

text \<open>
  C4 as stated (with a status supplied the update succeeds only for \<^verbatim>\<open>pending\<close> or
  \<^verbatim>\<open>completed\<close>) fails for the empty status, which is neither of the two, lower-cased
  or not: it is not validated, and the update of the title succeeds.
\<close>

theorem updateTask_blank_status_counterexample:
  "res_status (fst (put_task env0
      ((bearer ''token-a'')\<lparr>taskId := Some tid_A, body := Some body_blank_status\<rparr>) store_A)) = 200
   \<and> b_status body_blank_status = JStr []
   \<and> toLowerCase [] \<noteq> ''pending''
   \<and> toLowerCase [] \<noteq> ''completed''"
  by code_simp

subsection \<open>Creating\<close>

text \<open>
  C10, as the code has it. For a request with a non-empty title whose attached user id
  the ObjectId test rejects and the ObjectId constructor refuses, \<^verbatim>\<open>createTask\<close>
  answers 500 and stores nothing, while \<^verbatim>\<open>getTasks\<close> answers 400 when that id is
  not empty and 401 when it is empty.
\<close>

theorem createTask_unvalidated_user_id:
  assumes "user req = Some c" and "\<not> ObjectId_isValid e (ctx_id c)"
    and "ObjectId_new e (Some (ctx_id c)) = Inl err"
    and "body req = Some b" and "b_title b = JStr s" and "trim s \<noteq> []"
  shows "createTask e req st = (failure 500 ''Internal server error while creating task.'', st)
         \<and> getTasks e req st =
             (if ctx_id c = [] then failure 401 ''User not authenticated.''
              else failure 400 ''Invalid user id.'')"
proof -
  from assms(6) have "s \<noteq> []"
    by (auto simp: trim_def)
  with assms have "\<exists>x. createTask_try e req st = Inl x"
    by (auto simp: createTask_try_def split: sum.splits)
  then have "createTask e req st = (failure 500 ''Internal server error while creating task.'', st)"
    by (auto simp: createTask_def)
  moreover from assms(1,2) have "getTasks e req st =
             (if ctx_id c = [] then failure 401 ''User not authenticated.''
              else failure 400 ''Invalid user id.'')"
    by (simp add: getTasks_def getTasks_try_def)
  ultimately show ?thesis
    by simp
qed

theorem createTask_unvalidated_user_id_witness:
  "\<not> ObjectId_isValid env0 ''not-an-id''
   \<and> ObjectId_new env0 (Some ''not-an-id'') = Inl BSONError
   \<and> res_status (fst (createTask env0 req_bad_id empty_store)) = 500
   \<and> snd (createTask env0 req_bad_id empty_store) = empty_store
   \<and> res_status (getTasks env0 req_bad_id empty_store) = 400"
proof -
  have h1: "user req_bad_id = Some \<lparr>ctx_id = ''not-an-id'', ctx_role = ''user''\<rparr>" by code_simp
  have h2: "\<not> ObjectId_isValid env0 (ctx_id \<lparr>ctx_id = ''not-an-id'', ctx_role = ''user''\<rparr>)"
    by code_simp
  have h3: "ObjectId_new env0 (Some (ctx_id \<lparr>ctx_id = ''not-an-id'', ctx_role = ''user''\<rparr>)) = Inl BSONError"
    by code_simp
  have h4: "body req_bad_id = Some body_titled" by code_simp
  have h5: "b_title body_titled = JStr ''buy milk''" by code_simp
  have h6: "trim ''buy milk'' \<noteq> []" by code_simp
  from createTask_unvalidated_user_id [OF h1 h2 h3 h4 h5 h6, of empty_store] h2 h3
  show ?thesis by (simp add: failure_def)
qed

text \<open>
  C10 as stated (the list operation answers 400 for the same malformed id) fails for the
  empty user id, which \<^verbatim>\<open>getTasks\<close> answers with 401 before it tests the id.
\<close>

theorem getTasks_empty_user_id_counterexample:
  "\<not> ObjectId_isValid env0 (ctx_id \<lparr>ctx_id = [], ctx_role = ''user''\<rparr>)
   \<and> authMiddleware env0 ((bearer ''token-noid'')\<lparr>body := Some body_titled\<rparr>) = Inr req_empty_id
   \<and> res_status (fst (createTask env0 req_empty_id empty_store)) = 500
   \<and> res_status (getTasks env0 req_empty_id empty_store) = 401
   \<and> res_status (getTasks env0 req_empty_id empty_store) \<noteq> 400"
  by code_simp

end
